theory Spec2Isabelle
  imports Complex_Main
begin

section \<open>JavaScript values used by the front end\<close>

text \<open>
  A finite JavaScript number is modelled by the real it denotes: arithmetic is exact, the
  rounding of IEEE doubles is left out. \<open>NaN\<close> and the two infinities are constructors
  of their own, since \<open>parseFloat\<close> and a division of \<open>undefined\<close> produce them.
\<close>

datatype number = NaN | PosInfinity | NegInfinity | Num real

text \<open>ToBoolean on a number: \<open>NaN\<close>, \<open>+0\<close> and \<open>-0\<close> are falsy.\<close>

fun truthy_number :: "number \<Rightarrow> bool" where
  "truthy_number NaN = False"
| "truthy_number (Num x) = (x \<noteq> 0)"
| "truthy_number PosInfinity = True"
| "truthy_number NegInfinity = True"

text \<open>The expression \<open>n || 0\<close> on a number \<open>n\<close>.\<close>

definition or_zero :: "number \<Rightarrow> number" where
  "or_zero n = (if truthy_number n then n else Num 0)"

text \<open>
  The expression \<open>obj[key] || 0\<close> where the property is a JSON number or missing
  (\<open>undefined\<close>, here \<open>None\<close>).
\<close>

definition or0 :: "real option \<Rightarrow> real" where
  "or0 v = (case v of None \<Rightarrow> 0 | Some x \<Rightarrow> (if x \<noteq> 0 then x else 0))"

text \<open>A prop that is expected to hold an array: \<open>undefined\<close>, \<open>null\<close> or the array.\<close>

datatype 'a array_prop = Undefined | Null | Array "'a list"

text \<open>\<open>xs[i]\<close> on a JavaScript array: \<open>undefined\<close> (here \<open>None\<close>) out of range.\<close>

definition index :: "'a list \<Rightarrow> nat \<Rightarrow> 'a option" where
  "index xs i = (if i < length xs then Some (xs ! i) else None)"

subsection \<open>Integers as decimal strings\<close>

definition digit_char :: "nat \<Rightarrow> char" where
  "digit_char d = ''0123456789'' ! d"

fun nat_toString :: "nat \<Rightarrow> string" where
  "nat_toString n =
     (if n < 10 then [digit_char n]
      else nat_toString (n div 10) @ [digit_char (n mod 10)])"

declare nat_toString.simps [simp del]

text \<open>\<open>Number.prototype.toString\<close> on an integer value.\<close>

definition toString :: "int \<Rightarrow> string" where
  "toString i =
     (if i < 0 then CHR ''-'' # nat_toString (nat (- i)) else nat_toString (nat i))"

text \<open>\<open>String.prototype.padStart(n, c)\<close> with a one-character filler.\<close>

definition padStart :: "nat \<Rightarrow> char \<Rightarrow> string \<Rightarrow> string" where
  "padStart n c s = replicate (n - length s) c @ s"

text \<open>
  \<open>Number.prototype.toFixed(f)\<close>: the sign is split off, the magnitude is scaled by
  \<open>10 ^ f\<close> and rounded to the nearest integer (the larger one on a tie), and the
  decimal point is put \<open>f\<close> digits from the right. (The exponent notation of values
  from \<open>10 ^ 21\<close> on is left out.)
\<close>

definition toFixed :: "nat \<Rightarrow> number \<Rightarrow> string" where
  "toFixed f v =
     (case v of
        NaN \<Rightarrow> ''NaN''
      | PosInfinity \<Rightarrow> ''Infinity''
      | NegInfinity \<Rightarrow> ''-Infinity''
      | Num x \<Rightarrow>
          (let s = (if x < 0 then ''-'' else '''');
               n = nat (round (\<bar>x\<bar> * 10 ^ f));
               m = nat_toString n
           in if f = 0 then s @ m
              else (let m0 = padStart (f + 1) (CHR ''0'') m;
                        k = length m0
                    in s @ take (k - f) m0 @ ''.'' @ drop (k - f) m0)))"

section \<open>ELDLogViewer.js\<close>

text \<open>The two constant tables, in the order of their keys.\<close>

definition STATUS_COLORS :: "(string \<times> string) list" where
  "STATUS_COLORS =
     [(''off_duty'', ''#4a5568''), (''sleeper_berth'', ''#6b46c1''),
      (''driving'', ''#2b6cb0''), (''on_duty'', ''#276749'')]"

definition STATUS_LABELS :: "(string \<times> string) list" where
  "STATUS_LABELS =
     [(''off_duty'', ''Off Duty''), (''sleeper_berth'', ''Sleeper Berth''),
      (''driving'', ''Driving''), (''on_duty'', ''On Duty (Not Driving)'')]"

subsection \<open>formatHours\<close>

text \<open>
  The two local constants of \<open>formatHours\<close>, \<open>hrs = Math.floor(h)\<close> and
  \<open>mins = Math.round((h - hrs) * 60)\<close>, and the template string built from them.
  \<open>Math.round\<close> rounds a tie upwards, as \<^const>\<open>round\<close> does.
\<close>

definition formatHours_hrs :: "real \<Rightarrow> int" where
  "formatHours_hrs h = \<lfloor>h\<rfloor>"

definition formatHours_mins :: "real \<Rightarrow> int" where
  "formatHours_mins h = round ((h - of_int (formatHours_hrs h)) * 60)"

definition formatHours :: "real \<Rightarrow> string" where
  "formatHours h =
     toString (formatHours_hrs h) @ ''h '' @
     padStart 2 (CHR ''0'') (toString (formatHours_mins h)) @ ''m''"

subsection \<open>The DaySchedule component\<close>

record event =
  time :: real
  status :: string
  location :: string
  remark :: "string option"

record day_header =
  day :: int
  date_offset :: int

record day_schedule = day_header +
  events :: "event list"
  totals :: "(string \<rightharpoonup> real) option"

record log = day_header +
  image_base64 :: string

text \<open>One row of the event table: the four cells of the \<open>tr\<close> element.\<close>

record event_row =
  timeStr :: string
  badge_color :: "string option"
  badge_label :: string
  location_cell :: string
  remark_cell :: string

text \<open>
  The constants the callback of \<open>day.events.map((ev, i) => ...)\<close> computes for the event
  at index \<open>i\<close>: \<open>next = day.events[i + 1]\<close>, \<open>endTime = next ? next.time : 24\<close> and
  \<open>duration = endTime - ev.time\<close>.
\<close>

definition endTime :: "event list \<Rightarrow> nat \<Rightarrow> real" where
  "endTime evs i = (case index evs (i + 1) of Some next \<Rightarrow> time next | None \<Rightarrow> 24)"

definition duration :: "event list \<Rightarrow> nat \<Rightarrow> real" where
  "duration evs i = endTime evs i - time (evs ! i)"

text \<open>
  The row of the event at index \<open>i\<close>. The last cell is \<open>ev.remark || `(${formatHours(duration)})`\<close>:
  a missing or empty remark is falsy.
\<close>

definition render_event :: "event list \<Rightarrow> nat \<Rightarrow> event_row" where
  "render_event evs i =
     (let ev = evs ! i;
          hrs = \<lfloor>time ev\<rfloor>;
          mins = round ((time ev - of_int hrs) * 60)
      in \<lparr> timeStr = padStart 2 (CHR ''0'') (toString hrs) @ '':'' @
                       padStart 2 (CHR ''0'') (toString mins),
           badge_color = map_of STATUS_COLORS (status ev),
           badge_label = (case map_of STATUS_LABELS (status ev) of
                            Some l \<Rightarrow> (if l \<noteq> [] then l else status ev)
                          | None \<Rightarrow> status ev),
           location_cell = location ev,
           remark_cell = (case remark ev of
                            Some r \<Rightarrow> (if r \<noteq> [] then r
                                       else ''('' @ formatHours (duration evs i) @ '')'')
                          | None \<Rightarrow> ''('' @ formatHours (duration evs i) @ '')'') \<rparr>)"

text \<open>
  The component: the header is always there, the table only when \<open>expanded\<close> (the
  component's state, initially false).
\<close>

text \<open>The em dash of the header, as the three bytes of its UTF-8 encoding.\<close>

definition em_dash :: string where
  "em_dash = [char_of (226::nat), char_of (128::nat), char_of (148::nat)]"

record day_schedule_view =
  header :: string
  table :: "event_row list option"

definition DaySchedule :: "day_schedule \<Rightarrow> bool \<Rightarrow> day_schedule_view" where
  "DaySchedule d expanded =
     \<lparr> header = ''Day '' @ toString (day d) @ '' '' @ em_dash @ '' Events'',
       table = (if expanded
                then Some (map (render_event (events d)) [0..<length (events d)])
                else None) \<rparr>"

subsection \<open>The ELDLogViewer component\<close>

record total_item =
  bar_color :: "string option"
  bar_width_percent :: real
  total_label :: string
  total_value :: string

record totals_view =
  total_items :: "total_item list"
  total_combined :: string

record eld_view =
  subtitle :: string
  tabs :: "(string \<times> bool) list"
  currentLog :: log
  image_src :: string
  image_alt :: string
  daily_totals :: "totals_view option"
  event_schedule :: "day_schedule option"

datatype 'a rendered = RendersNull | Renders 'a | ThrowsTypeError

text \<open>The block under \<open>currentSchedule?.totals &&\<close>.\<close>

definition render_totals :: "(string \<rightharpoonup> real) \<Rightarrow> totals_view" where
  "render_totals t =
     \<lparr> total_items =
         map (\<lambda>(key, label).
                (let hrs = or0 (t key)
                 in \<lparr> bar_color = map_of STATUS_COLORS key,
                      bar_width_percent = (hrs / 24) * 100,
                      total_label = label,
                      total_value = formatHours hrs \<rparr>))
             STATUS_LABELS,
       total_combined = formatHours (or0 (t ''driving'') + or0 (t ''on_duty'')) \<rparr>"

text \<open>
  The component, as a function of its two props and of its state \<open>activeDay\<close> (initially
  0). Reading \<open>currentLog.image_base64\<close> of an \<open>undefined\<close> log throws.
\<close>

definition ELDLogViewer :: "log array_prop \<Rightarrow> day_schedule array_prop \<Rightarrow> nat \<Rightarrow> eld_view rendered" where
  "ELDLogViewer logs schedule activeDay =
     (case logs of
        Undefined \<Rightarrow> RendersNull
      | Null \<Rightarrow> RendersNull
      | Array ls \<Rightarrow>
          (if length ls = 0 then RendersNull
           else (let currentSchedule =
                       (case schedule of Array ss \<Rightarrow> index ss activeDay | _ \<Rightarrow> None)
                 in case index ls activeDay of
                      None \<Rightarrow> ThrowsTypeError
                    | Some cl \<Rightarrow>
                        Renders
                          \<lparr> subtitle = toString (int (length ls)) @ '' log sheet'' @
                                        (if length ls > 1 then ''s'' else '''') @ '' generated'',
                            tabs = map (\<lambda>i. (''Day '' @ toString (day (ls ! i)), activeDay = i))
                                     [0..<length ls],
                            currentLog = cl,
                            image_src = ''data:image/png;base64,'' @ image_base64 cl,
                            image_alt = ''ELD Log Day '' @ toString (day cl),
                            daily_totals =
                              (case currentSchedule of
                                 None \<Rightarrow> None
                               | Some cs \<Rightarrow> map_option render_totals (totals cs)),
                            event_schedule = currentSchedule \<rparr>)))"

definition initial_activeDay :: nat where
  "initial_activeDay = 0"

subsection \<open>Sample data\<close>

text \<open>A day in the shape of the example of the README, used to evaluate the components.\<close>

definition sample_events :: "event list" where
  "sample_events =
     [\<lparr> time = 0, status = ''off_duty'', location = ''Chicago, IL'', remark = Some '''' \<rparr>,
      \<lparr> time = 6, status = ''on_duty'', location = ''Chicago, IL'',
        remark = Some ''Pre-trip inspection'' \<rparr>,
      \<lparr> time = 6.5, status = ''driving'', location = ''Chicago, IL'', remark = None \<rparr>]"

definition sample_day :: day_schedule where
  "sample_day =
     \<lparr> day = 1, date_offset = 0, events = sample_events,
       totals = Some [''off_duty'' \<mapsto> 6, ''driving'' \<mapsto> 17.5, ''sleeper_berth'' \<mapsto> 0.5] \<rparr>"

definition sample_log :: log where
  "sample_log = \<lparr> day = 1, date_offset = 0, image_base64 = ''iVBOR'' \<rparr>"

section \<open>TripForm.js\<close>

text \<open>
  The form's state \<open>formData\<close> holds four strings; the object handed to \<open>onSubmit\<close> has
  the same keys with a number under \<open>current_cycle_used\<close>.
\<close>

record 'c trip_data =
  current_location :: string
  pickup_location :: string
  dropoff_location :: string
  current_cycle_used :: 'c

definition initial_formData :: "string trip_data" where
  "initial_formData =
     \<lparr> current_location = '''', pickup_location = '''', dropoff_location = '''',
       current_cycle_used = '''' \<rparr>"

text \<open>\<open>handleChange\<close>, for the names of the four inputs of the form.\<close>

definition handleChange :: "string \<Rightarrow> string \<Rightarrow> string trip_data \<Rightarrow> string trip_data" where
  "handleChange name v prev =
     (if name = ''current_location'' then prev\<lparr>current_location := v\<rparr>
      else if name = ''pickup_location'' then prev\<lparr>pickup_location := v\<rparr>
      else if name = ''dropoff_location'' then prev\<lparr>dropoff_location := v\<rparr>
      else if name = ''current_cycle_used'' then prev\<lparr>current_cycle_used := v\<rparr>
      else prev)"

text \<open>
  \<open>handleSubmit\<close>: the object it hands to \<open>onSubmit\<close>. The host's \<open>parseFloat\<close> is a
  parameter. There is no check of the range in the handler itself.
\<close>

definition handleSubmit ::
  "(string \<Rightarrow> number) \<Rightarrow> string trip_data \<Rightarrow> number trip_data" where
  "handleSubmit parseFloat formData =
     \<lparr> current_location = current_location formData,
       pickup_location = pickup_location formData,
       dropoff_location = dropoff_location formData,
       current_cycle_used = or_zero (parseFloat (current_cycle_used formData)) \<rparr>"

text \<open>
  The attributes the JSX gives the inputs. The three locations are \<open>type="text" required\<close>;
  the last input is \<open>type="number" min="0" max="70" step="0.5" required\<close>. The form has no
  \<open>noValidate\<close>, so the submit button fires \<open>onSubmit\<close> only when every input satisfies
  its constraints: a required value is not empty, and the number the value of a number
  input denotes (read here with the same \<open>parseFloat\<close>) lies between \<open>min\<close> and \<open>max\<close>
  and is a whole number of steps away from \<open>min\<close>.
\<close>

record number_input =
  input_min :: real
  input_max :: real
  input_step :: real
  input_required :: bool

definition cycle_input :: number_input where
  "cycle_input = \<lparr> input_min = 0, input_max = 70, input_step = 0.5, input_required = True \<rparr>"

definition text_input_valid :: "bool \<Rightarrow> string \<Rightarrow> bool" where
  "text_input_valid required v = (required \<longrightarrow> v \<noteq> [])"

definition number_input_valid :: "(string \<Rightarrow> number) \<Rightarrow> number_input \<Rightarrow> string \<Rightarrow> bool" where
  "number_input_valid parseFloat inp v =
     (if v = [] then \<not> input_required inp
      else (case parseFloat v of
              Num x \<Rightarrow>
                input_min inp \<le> x \<and> x \<le> input_max inp \<and>
                of_int \<lfloor>(x - input_min inp) / input_step inp\<rfloor> = (x - input_min inp) / input_step inp
            | _ \<Rightarrow> False))"

text \<open>
  Pressing the submit button: \<open>None\<close> when the constraint validation blocks the
  submission (nothing reaches \<open>onSubmit\<close>), else the object \<open>handleSubmit\<close> hands over,
  which \<open>App\<close> passes unchanged to \<open>planTrip\<close> as the body of the request.
\<close>

definition TripForm_submit ::
  "(string \<Rightarrow> number) \<Rightarrow> string trip_data \<Rightarrow> number trip_data option" where
  "TripForm_submit parseFloat formData =
     (if text_input_valid True (current_location formData)
         \<and> text_input_valid True (pickup_location formData)
         \<and> text_input_valid True (dropoff_location formData)
         \<and> number_input_valid parseFloat cycle_input (current_cycle_used formData)
      then Some (handleSubmit parseFloat formData)
      else None)"

text \<open>The values of \<open>parseFloat\<close> on the entries of the samples below.\<close>

definition sample_parseFloat :: "string \<Rightarrow> number" where
  "sample_parseFloat s =
     (if s = ''36'' then Num 36 else if s = ''20.5'' then Num 20.5
      else if s = ''0'' then Num 0 else if s = ''70'' then Num 70
      else if s = ''100'' then Num 100 else if s = ''-1'' then Num (- 1)
      else NaN)"

text \<open>The state of the form after the four inputs have been filled in.\<close>

definition sample_formData :: "string \<Rightarrow> string trip_data" where
  "sample_formData cycle =
     handleChange ''current_cycle_used'' cycle
       (handleChange ''dropoff_location'' ''Minneapolis, MN''
          (handleChange ''pickup_location'' ''Milwaukee, WI''
             (handleChange ''current_location'' ''Chicago, IL'' initial_formData)))"

section \<open>App.js\<close>

text \<open>Values that occur where a message is expected.\<close>

datatype jsval = JUndefined | JNull | JBool bool | JNumber number | JString string | JObject

fun truthy :: "jsval \<Rightarrow> bool" where
  "truthy JUndefined = False"
| "truthy JNull = False"
| "truthy (JBool b) = b"
| "truthy (JNumber n) = truthy_number n"
| "truthy (JString s) = (s \<noteq> [])"
| "truthy JObject = True"

text \<open>
  What \<open>planTrip\<close> settles with. It resolves with \<open>response.data\<close>, the body of the
  response, whatever that is: \<open>None\<close> is a body of \<open>null\<close>, \<open>Some d\<close> any other value
  (the object \<open>{route, schedule, logs}\<close> of the API, when the back end answers as
  documented). Or it rejects with what was thrown: \<open>None\<close> for a thrown \<open>null\<close> or
  \<open>undefined\<close>, else an object that may have a \<open>response\<close> with a \<open>data\<close> with an
  \<open>error\<close>, and a \<open>message\<close>.
\<close>

record err_data =
  error_field :: jsval

record err_response =
  data :: "err_data option"

record thrown =
  response :: "err_response option"
  message :: jsval

datatype 'r outcome = Resolved "'r option" | Rejected "thrown option"

text \<open>\<open>err?.response?.data?.error\<close> and \<open>err?.message\<close>.\<close>

definition response_data_error :: "thrown option \<Rightarrow> jsval" where
  "response_data_error err =
     (case err of
        None \<Rightarrow> JUndefined
      | Some e \<Rightarrow>
          (case response e of
             None \<Rightarrow> JUndefined
           | Some r \<Rightarrow> (case data r of None \<Rightarrow> JUndefined | Some d \<Rightarrow> error_field d)))"

definition err_message :: "thrown option \<Rightarrow> jsval" where
  "err_message err = (case err of None \<Rightarrow> JUndefined | Some e \<Rightarrow> message e)"

definition msg :: "thrown option \<Rightarrow> jsval" where
  "msg err =
     (if truthy (response_data_error err) then response_data_error err
      else if truthy (err_message err) then err_message err
      else JString ''An unexpected error occurred. Please try again.'')"

text \<open>The three pieces of state of \<open>App\<close>; \<open>null\<close> is \<open>JNull\<close> and \<open>None\<close>.\<close>

record 'r app_state =
  loading :: bool
  error :: jsval
  result :: "'r option"

definition initial_app_state :: "'r app_state" where
  "initial_app_state = \<lparr> loading = False, error = JNull, result = None \<rparr>"

text \<open>
  \<open>App\<close>'s \<open>handleSubmit\<close> in two halves: the three updates before the \<open>await\<close>, and the
  updates once \<open>planTrip\<close> has settled (the \<open>try\<close> or the \<open>catch\<close> branch, then
  \<open>finally\<close>). \<open>setResult(data)\<close> stores what \<open>planTrip\<close> resolved with as it is; there
  is no check of it.
\<close>

definition App_handleSubmit_start :: "'r app_state \<Rightarrow> 'r app_state" where
  "App_handleSubmit_start st = st\<lparr> loading := True, error := JNull, result := None \<rparr>"

definition App_handleSubmit_settled :: "'r outcome \<Rightarrow> 'r app_state \<Rightarrow> 'r app_state" where
  "App_handleSubmit_settled out st =
     (case out of
        Resolved d \<Rightarrow> st\<lparr> result := d \<rparr>
      | Rejected err \<Rightarrow> st\<lparr> error := msg err \<rparr>) \<lparr> loading := False \<rparr>"

definition App_handleSubmit :: "'r outcome \<Rightarrow> 'r app_state \<Rightarrow> 'r app_state" where
  "App_handleSubmit out st = App_handleSubmit_settled out (App_handleSubmit_start st)"

subsection \<open>Sample states of the application\<close>

definition sample_thrown :: thrown where
  "sample_thrown =
     \<lparr> response = Some \<lparr> data = Some \<lparr> error_field = JString '''' \<rparr> \<rparr>,
       message = JString ''Request failed with status code 400'' \<rparr>"

definition stale_state :: "string app_state" where
  "stale_state =
     \<lparr> loading = False, error = JString ''old error'', result = Some ''old result'' \<rparr>"

section \<open>RouteMap.js\<close>

text \<open>
  A leg arrives as a JSON object, read by property name: a function from names to values,
  \<open>JUndefined\<close> where the object has no such property.
\<close>

type_synonym js_object = "string \<Rightarrow> jsval"

definition object_of :: "(string \<times> jsval) list \<Rightarrow> js_object" where
  "object_of kvs k = (case map_of kvs k of Some v \<Rightarrow> v | None \<Rightarrow> JUndefined)"

text \<open>
  ToNumber, as the division applies it to its left operand. The conversion of a string is
  the host's and a parameter.
\<close>

fun ToNumber :: "(string \<Rightarrow> number) \<Rightarrow> jsval \<Rightarrow> number" where
  "ToNumber s2n JUndefined = NaN"
| "ToNumber s2n JNull = Num 0"
| "ToNumber s2n (JBool b) = Num (if b then 1 else 0)"
| "ToNumber s2n (JNumber n) = n"
| "ToNumber s2n (JString s) = s2n s"
| "ToNumber s2n JObject = NaN"

text \<open>\<open>n / c\<close> for a positive finite constant \<open>c\<close>.\<close>

fun divide_by :: "number \<Rightarrow> real \<Rightarrow> number" where
  "divide_by NaN c = NaN"
| "divide_by PosInfinity c = PosInfinity"
| "divide_by NegInfinity c = NegInfinity"
| "divide_by (Num x) c = Num (x / c)"

text \<open>
  One entry of the list of legs: the two children of the first span, and the two numerals
  of the second (\<open>... mi\<close> and \<open>... hrs\<close>).
\<close>

record leg_row =
  leg_from :: jsval
  leg_to :: jsval
  leg_miles :: string
  leg_hours :: string

definition render_leg :: "(string \<Rightarrow> number) \<Rightarrow> js_object \<Rightarrow> leg_row" where
  "render_leg s2n leg =
     \<lparr> leg_from = leg ''from_location'',
       leg_to = leg ''to_location'',
       leg_miles = toFixed 0 (divide_by (ToNumber s2n (leg ''distance_meters'')) 1609.34),
       leg_hours = toFixed 1 (divide_by (ToNumber s2n (leg ''duration_seconds'')) 3600) \<rparr>"

text \<open>The block under \<open>routeData?.legs &&\<close>, for a \<open>legs\<close> that is an array or missing.\<close>

definition render_legs :: "(string \<Rightarrow> number) \<Rightarrow> js_object list option \<Rightarrow> leg_row list option" where
  "render_legs s2n legs = map_option (map (render_leg s2n)) legs"

text \<open>A leg under the field names of the specification, and one under those the component reads.\<close>

definition spec_leg :: js_object where
  "spec_leg = object_of
     [(''from_label'', JString ''Chicago, IL''), (''to_label'', JString ''Milwaukee, WI''),
      (''duration_hours'', JNumber (Num 1.5)), (''distance_miles'', JNumber (Num 92))]"

definition wire_leg :: js_object where
  "wire_leg = object_of
     [(''from_location'', JString ''Chicago, IL''), (''to_location'', JString ''Milwaukee, WI''),
      (''duration_seconds'', JNumber (Num 5400)), (''distance_meters'', JNumber (Num 148059.28))]"

section \<open>The log renderer's pixel mapping\<close>




section \<open>The duty schedule engine\<close>

text \<open>
  Modelled from the spec: the duty schedule engine and the day splitter (the back end's
  \<open>hos_calculator.py\<close>) are not among the source files; only the front end that displays
  their output is. The definitions of this section and of the next one follow sections 3,
  4.1 and 4.2 of the specification. Hours are exact reals.
\<close>

datatype duty_status = OffDuty | SleeperBerth | Driving | OnDutyNotDriving

text \<open>Modelled from the spec: the Leg of the data model, with its four fields.\<close>

record leg =
  from_label :: string
  to_label :: string
  duration_hours :: real
  distance_miles :: real

text \<open>Modelled from the spec: CycleState, the four running counters of the engine.\<close>

record cycle_state =
  driving_since_break_hours :: real
  driving_this_shift_hours :: real
  onduty_window_elapsed_hours :: real
  cycle_hours_remaining :: real

text \<open>
  Modelled from the spec: an event of the continuous timeline, with its time since the
  start of the clock and its duration.
\<close>

record timeline_event =
  start_hours :: real
  length_hours :: real
  tl_status :: duty_status
  tl_location :: string
  tl_remark :: string

text \<open>
  Modelled from the spec: the state of a run, which is the clock, the counters and the
  events so far.
\<close>

record engine_state =
  now :: real
  counters :: cycle_state
  timeline :: "timeline_event list"

text \<open>
  Modelled from the spec: what the specification leaves to configuration. The durations of
  the pre-trip inspection and of loading or unloading are its two open policy choices; a
  rest is OffDuty or SleeperBerth; and the clock starts at \<open>t = 0\<close> in status OffDuty,
  the hour at which the trip itself starts being left open (0 when the trip starts with
  the clock, 6 in the example of the README).
\<close>

record engine_config =
  trip_start_hours :: real
  pretrip_hours :: real
  dwell_hours :: real
  rest_in_sleeper :: bool

text \<open>
  Modelled from the spec: the two kinds of work that advance the counters, the driving of
  a leg and a fixed on-duty block.
\<close>

datatype activity = DriveLeg | OnDutyBlock

fun activity_status :: "activity \<Rightarrow> duty_status" where
  "activity_status DriveLeg = Driving"
| "activity_status OnDutyBlock = OnDutyNotDriving"

text \<open>Modelled from the spec: an event is added at the clock, which moves to its end.\<close>

definition emit :: "duty_status \<Rightarrow> string \<Rightarrow> string \<Rightarrow> real \<Rightarrow> engine_state \<Rightarrow> engine_state" where
  "emit s loc rmk d st =
     st\<lparr> now := now st + d,
         timeline := timeline st @
           [\<lparr> start_hours = now st, length_hours = d, tl_status = s,
              tl_location = loc, tl_remark = rmk \<rparr>] \<rparr>"

text \<open>
  Modelled from the spec: the limit checks. The cycle is exhausted when
  \<open>cycle_hours_remaining\<close> has reached 0; the shift when the window has reached 14, or,
  for driving, when \<open>driving_this_shift_hours\<close> has reached 11; a break is due, for
  driving, when \<open>driving_since_break_hours\<close> has reached 8. An on-duty block adds nothing
  to the two driving counters, so only the window and the cycle stop it.
\<close>

definition cycle_exhausted :: "cycle_state \<Rightarrow> bool" where
  "cycle_exhausted c = (cycle_hours_remaining c \<le> 0)"

definition shift_exhausted :: "activity \<Rightarrow> cycle_state \<Rightarrow> bool" where
  "shift_exhausted a c =
     (14 \<le> onduty_window_elapsed_hours c \<or> (a = DriveLeg \<and> 11 \<le> driving_this_shift_hours c))"

definition break_due :: "activity \<Rightarrow> cycle_state \<Rightarrow> bool" where
  "break_due a c = (a = DriveLeg \<and> 8 \<le> driving_since_break_hours c)"

text \<open>
  Modelled from the spec: the three insertions. The restart is 34 hours OffDuty, after
  which the cycle is 70 again and the shift counters are 0; the rest is exactly 10 hours,
  after which the three shift counters are 0; the break is half an hour OffDuty, after
  which \<open>driving_since_break_hours\<close> is 0 and \<open>driving_this_shift_hours\<close> is what it
  was. Time off duty does not count towards the window.
\<close>

definition restart :: "string \<Rightarrow> engine_state \<Rightarrow> engine_state" where
  "restart loc st =
     (emit OffDuty loc '''' 34 st)
       \<lparr> counters := \<lparr> driving_since_break_hours = 0, driving_this_shift_hours = 0,
                       onduty_window_elapsed_hours = 0, cycle_hours_remaining = 70 \<rparr> \<rparr>"

definition rest :: "engine_config \<Rightarrow> string \<Rightarrow> engine_state \<Rightarrow> engine_state" where
  "rest cfg loc st =
     (emit (if rest_in_sleeper cfg then SleeperBerth else OffDuty) loc '''' 10 st)
       \<lparr> counters := (counters st)
           \<lparr> driving_since_break_hours := 0, driving_this_shift_hours := 0,
             onduty_window_elapsed_hours := 0 \<rparr> \<rparr>"

definition take_break :: "string \<Rightarrow> engine_state \<Rightarrow> engine_state" where
  "take_break loc st =
     (emit OffDuty loc '''' (1 / 2) st)
       \<lparr> counters := (counters st) \<lparr> driving_since_break_hours := 0 \<rparr> \<rparr>"

text \<open>
  Modelled from the spec: the time the work can go on before it is over or a counter
  reaches its bound, and the counters after that time: driving adds to both driving
  counters and to the window, and takes from the cycle, in lockstep; an on-duty block
  adds to the window and takes from the cycle only.
\<close>

definition chunk :: "activity \<Rightarrow> real \<Rightarrow> cycle_state \<Rightarrow> real" where
  "chunk a rem c =
     (case a of
        DriveLeg \<Rightarrow>
          min rem (min (8 - driving_since_break_hours c)
            (min (11 - driving_this_shift_hours c)
              (min (14 - onduty_window_elapsed_hours c) (cycle_hours_remaining c))))
      | OnDutyBlock \<Rightarrow>
          min rem (min (14 - onduty_window_elapsed_hours c) (cycle_hours_remaining c)))"

definition consume :: "activity \<Rightarrow> real \<Rightarrow> cycle_state \<Rightarrow> cycle_state" where
  "consume a d c =
     (case a of
        DriveLeg \<Rightarrow>
          \<lparr> driving_since_break_hours = driving_since_break_hours c + d,
            driving_this_shift_hours = driving_this_shift_hours c + d,
            onduty_window_elapsed_hours = onduty_window_elapsed_hours c + d,
            cycle_hours_remaining = cycle_hours_remaining c - d \<rparr>
      | OnDutyBlock \<Rightarrow>
          c \<lparr> onduty_window_elapsed_hours := onduty_window_elapsed_hours c + d,
              cycle_hours_remaining := cycle_hours_remaining c - d \<rparr>)"

definition advance :: "activity \<Rightarrow> string \<Rightarrow> string \<Rightarrow> real \<Rightarrow> engine_state \<Rightarrow> engine_state" where
  "advance a loc rmk d st =
     (emit (activity_status a) loc rmk d st) \<lparr> counters := consume a d (counters st) \<rparr>"

text \<open>Modelled from the spec: one of the limits is reached, whichever it is.\<close>

definition limit_reached :: "activity \<Rightarrow> cycle_state \<Rightarrow> bool" where
  "limit_reached a c = (cycle_exhausted c \<or> shift_exhausted a c \<or> break_due a c)"

text \<open>
  A bound on the steps still to come, for the termination of the step function below:
  each insertion and each stretch of work lowers it by at least 1.
\<close>

definition slack_used :: "cycle_state \<Rightarrow> real" where
  "slack_used c =
     (1 / 4) * max 0 (driving_since_break_hours c)
     + (2 / 11) * max 0 (driving_this_shift_hours c)
     + (1 / 7) * max 0 (onduty_window_elapsed_hours c)
     + (1 / 35) * max 0 (70 - cycle_hours_remaining c)"

definition work_bound :: "activity \<Rightarrow> real \<Rightarrow> cycle_state \<Rightarrow> real" where
  "work_bound a rem c =
     (1 / 4 + 2 / 11 + 1 / 7 + 1 / 35) * max 0 rem + slack_used c
     + (if 0 < rem then 1 else 0)
     + (if limit_reached a c then 0 else 1)"

lemma slack_used_nonneg: "0 \<le> slack_used c"
  by (simp add: slack_used_def)

lemma work_bound_nonneg: "0 \<le> work_bound a rem c"
  using slack_used_nonneg [of c] by (simp add: work_bound_def)

lemma measure_step:
  assumes "work_bound a' rem' c' + 1 \<le> work_bound a rem c"
  shows "nat \<lceil>work_bound a' rem' c'\<rceil> < nat \<lceil>work_bound a rem c\<rceil>"
proof -
  have "0 \<le> work_bound a' rem' c'" by (rule work_bound_nonneg)
  then have "0 \<le> \<lceil>work_bound a' rem' c'\<rceil>" by simp
  moreover have "\<lceil>work_bound a' rem' c'\<rceil> + 1 \<le> \<lceil>work_bound a rem c\<rceil>"
    using assms by (metis ceiling_add_one ceiling_mono)
  ultimately show ?thesis by linarith
qed

lemma weighted_sum_bound:
  fixes A B C D :: real
  assumes "0 \<le> A" "0 \<le> B" "0 \<le> C" "0 \<le> D"
    and "8 \<le> A \<or> 11 \<le> B \<or> 14 \<le> C \<or> 70 \<le> D"
  shows "2 \<le> (1 / 4) * A + (2 / 11) * B + (1 / 7) * C + (1 / 35) * D"
  using assms by linarith

lemma weighted_sum_shift:
  fixes A B C D :: real
  assumes "0 \<le> A" "0 \<le> B" "0 \<le> C"
    and "11 \<le> B \<or> 14 \<le> C"
  shows "2 + (1 / 35) * D \<le> (1 / 4) * A + (2 / 11) * B + (1 / 7) * C + (1 / 35) * D"
  using assms by linarith

lemma weighted_sum_step:
  fixes A B C D A' B' C' D' d :: real
  assumes "A' \<le> A + d" "B' \<le> B + d" "C' \<le> C + d" "D' \<le> D + d"
  shows "(1 / 4) * A' + (2 / 11) * B' + (1 / 7) * C' + (1 / 35) * D'
         \<le> (1 / 4) * A + (2 / 11) * B + (1 / 7) * C + (1 / 35) * D
            + (1 / 4 + 2 / 11 + 1 / 7 + 1 / 35) * d"
  using assms by (simp add: algebra_simps)

lemma slack_used_restart: "slack_used (counters (restart loc st)) = 0"
  by (simp add: slack_used_def restart_def)

lemma slack_used_cycle_exhausted:
  assumes "cycle_exhausted c"
  shows "2 \<le> slack_used c"
proof -
  have "70 \<le> max 0 (70 - cycle_hours_remaining c)"
    using assms by (simp add: cycle_exhausted_def)
  then show ?thesis
    unfolding slack_used_def by (intro weighted_sum_bound disjI2) simp_all
qed

lemma restart_decreases:
  assumes "0 < rem" "cycle_exhausted (counters st)"
  shows "work_bound a rem (counters (restart loc st)) + 1 \<le> work_bound a rem (counters st)"
proof -
  have "limit_reached a (counters st)"
    using assms by (simp add: limit_reached_def)
  then show ?thesis
    using slack_used_restart [of loc st] slack_used_cycle_exhausted [OF assms(2)] assms(1)
    by (simp add: work_bound_def)
qed

lemma slack_used_rest:
  "slack_used (counters (rest cfg loc st))
     = (1 / 35) * max 0 (70 - cycle_hours_remaining (counters st))"
  by (simp add: slack_used_def rest_def emit_def)

lemma slack_used_shift_exhausted:
  assumes "shift_exhausted a c"
  shows "2 + (1 / 35) * max 0 (70 - cycle_hours_remaining c) \<le> slack_used c"
proof -
  have "14 \<le> max 0 (onduty_window_elapsed_hours c) \<or> 11 \<le> max 0 (driving_this_shift_hours c)"
    using assms by (auto simp add: shift_exhausted_def)
  then show ?thesis
    unfolding slack_used_def by (intro weighted_sum_shift) auto
qed

lemma rest_decreases:
  assumes "0 < rem" "shift_exhausted a (counters st)"
  shows "work_bound a rem (counters (rest cfg loc st)) + 1 \<le> work_bound a rem (counters st)"
proof -
  have "limit_reached a (counters st)"
    using assms by (simp add: limit_reached_def)
  then show ?thesis
    using slack_used_rest [of cfg loc st] slack_used_shift_exhausted [OF assms(2)] assms(1)
    by (simp add: work_bound_def)
qed

lemma slack_used_take_break:
  "slack_used (counters (take_break loc st))
     = slack_used (counters st) - (1 / 4) * max 0 (driving_since_break_hours (counters st))"
  by (simp add: slack_used_def take_break_def emit_def)

lemma break_decreases:
  assumes "0 < rem" "break_due a (counters st)"
  shows "work_bound a rem (counters (take_break loc st)) + 1 \<le> work_bound a rem (counters st)"
proof -
  have "limit_reached a (counters st)"
    using assms by (simp add: limit_reached_def)
  moreover have "8 \<le> driving_since_break_hours (counters st)"
    using assms(2) by (simp add: break_due_def)
  then have "2 \<le> (1 / 4) * max 0 (driving_since_break_hours (counters st))"
    by simp
  then have "slack_used (counters (take_break loc st)) + 2 \<le> slack_used (counters st)"
    unfolding slack_used_take_break by linarith
  ultimately show ?thesis
    using assms(1) unfolding work_bound_def by (simp split: if_splits)
qed

lemma chunk_positive:
  assumes "0 < rem" "\<not> limit_reached a c"
  shows "0 < chunk a rem c"
  using assms
  by (cases a)
    (auto simp add: chunk_def limit_reached_def cycle_exhausted_def shift_exhausted_def
      break_due_def)

lemma chunk_le: "chunk a rem c \<le> rem"
  by (cases a) (simp_all add: chunk_def)

lemma chunk_limit:
  assumes "chunk a rem c < rem"
  shows "limit_reached a (consume a (chunk a rem c) c)"
proof (cases a)
  case DriveLeg
  with assms show ?thesis
    by (auto simp add: chunk_def consume_def limit_reached_def cycle_exhausted_def
        shift_exhausted_def break_due_def min_def split: if_splits)
next
  case OnDutyBlock
  with assms show ?thesis
    by (auto simp add: chunk_def consume_def limit_reached_def cycle_exhausted_def
        shift_exhausted_def break_due_def min_def split: if_splits)
qed

lemma max0_add: "0 \<le> d \<Longrightarrow> max 0 (x + d) \<le> max 0 x + (d::real)"
  by (simp add: max_def)

lemma slack_used_consume:
  assumes "0 \<le> d"
  shows "slack_used (consume a d c) \<le> slack_used c + (1 / 4 + 2 / 11 + 1 / 7 + 1 / 35) * d"
proof -
  have "max 0 (driving_since_break_hours (consume a d c))
          \<le> max 0 (driving_since_break_hours c) + d"
    using assms by (cases a) (simp_all add: consume_def max_def)
  moreover have "max 0 (driving_this_shift_hours (consume a d c))
          \<le> max 0 (driving_this_shift_hours c) + d"
    using assms by (cases a) (simp_all add: consume_def max_def)
  moreover have "max 0 (onduty_window_elapsed_hours (consume a d c))
          \<le> max 0 (onduty_window_elapsed_hours c) + d"
    using assms by (cases a) (simp_all add: consume_def max_def)
  moreover have "max 0 (70 - cycle_hours_remaining (consume a d c))
          \<le> max 0 (70 - cycle_hours_remaining c) + d"
    using assms by (cases a) (simp_all add: consume_def max_def)
  ultimately show ?thesis
    unfolding slack_used_def by (rule weighted_sum_step)
qed

lemma advance_decreases:
  assumes "0 < rem" "\<not> limit_reached a (counters st)"
  shows "work_bound a (rem - chunk a rem (counters st))
           (counters (advance a loc rmk (chunk a rem (counters st)) st)) + 1
         \<le> work_bound a rem (counters st)"
proof -
  let ?c = "counters st"
  let ?d = "chunk a rem ?c"
  have pos: "0 < ?d" using assms by (rule chunk_positive)
  have le: "?d \<le> rem" by (rule chunk_le)
  have cs: "counters (advance a loc rmk ?d st) = consume a ?d ?c"
    by (simp add: advance_def)
  have sl: "slack_used (consume a ?d ?c) \<le> slack_used ?c + (1 / 4 + 2 / 11 + 1 / 7 + 1 / 35) * ?d"
    using pos by (intro slack_used_consume) simp
  have ind: "(if 0 < rem - ?d then 1 else 0) + (if limit_reached a (consume a ?d ?c) then 0 else 1)
               \<le> (1::real)"
    using chunk_limit [of a rem ?c] le by auto
  have mx: "max 0 (rem - ?d) = rem - ?d" "max 0 rem = rem" using le assms(1) by simp_all
  define K :: real where "K = 1 / 4 + 2 / 11 + 1 / 7 + 1 / 35"
  have "K * (rem - ?d) = K * rem - K * ?d" by (simp add: algebra_simps)
  with sl have "K * (rem - ?d) + slack_used (consume a ?d ?c) \<le> K * rem + slack_used ?c"
    unfolding K_def by linarith
  then show ?thesis
    unfolding work_bound_def cs mx K_def using ind assms by simp
qed

text \<open>
  Modelled from the spec: the single time-advancing step function of section 9, for
  \<open>rem\<close> hours of work of kind \<open>a\<close>. When several limits are reached at the same
  instant, one insertion is made: the restart before the rest, the rest before the break,
  since the longer one clears what the shorter one would.
\<close>

function run_activity ::
  "engine_config \<Rightarrow> activity \<Rightarrow> string \<Rightarrow> string \<Rightarrow> real \<Rightarrow> engine_state \<Rightarrow> engine_state" where
  "run_activity cfg a loc rmk rem st =
     (if rem \<le> 0 then st
      else if cycle_exhausted (counters st) then run_activity cfg a loc rmk rem (restart loc st)
      else if shift_exhausted a (counters st) then run_activity cfg a loc rmk rem (rest cfg loc st)
      else if break_due a (counters st) then run_activity cfg a loc rmk rem (take_break loc st)
      else run_activity cfg a loc rmk (rem - chunk a rem (counters st))
             (advance a loc rmk (chunk a rem (counters st)) st))"
  by pat_completeness auto
termination
proof (relation "measure (\<lambda>(cfg, a, loc, rmk, rem, st). nat \<lceil>work_bound a rem (counters st)\<rceil>)")
  show "wf (measure (\<lambda>(cfg, a, loc, rmk, rem, st). nat \<lceil>work_bound a rem (counters st)\<rceil>))"
    by simp
next
  fix cfg :: engine_config and a loc rmk and rem :: real and st :: engine_state
  assume "\<not> rem \<le> 0" "cycle_exhausted (counters st)"
  then show "((cfg, a, loc, rmk, rem, restart loc st), (cfg, a, loc, rmk, rem, st))
      \<in> measure (\<lambda>(cfg, a, loc, rmk, rem, st). nat \<lceil>work_bound a rem (counters st)\<rceil>)"
    using measure_step [OF restart_decreases] by simp
next
  fix cfg :: engine_config and a loc rmk and rem :: real and st :: engine_state
  assume "\<not> rem \<le> 0" "shift_exhausted a (counters st)"
  then show "((cfg, a, loc, rmk, rem, rest cfg loc st), (cfg, a, loc, rmk, rem, st))
      \<in> measure (\<lambda>(cfg, a, loc, rmk, rem, st). nat \<lceil>work_bound a rem (counters st)\<rceil>)"
    using measure_step [OF rest_decreases] by simp
next
  fix cfg :: engine_config and a loc rmk and rem :: real and st :: engine_state
  assume "\<not> rem \<le> 0" "break_due a (counters st)"
  then show "((cfg, a, loc, rmk, rem, take_break loc st), (cfg, a, loc, rmk, rem, st))
      \<in> measure (\<lambda>(cfg, a, loc, rmk, rem, st). nat \<lceil>work_bound a rem (counters st)\<rceil>)"
    using measure_step [OF break_decreases] by simp
next
  fix cfg :: engine_config and a loc rmk and rem :: real and st :: engine_state
  assume "\<not> rem \<le> 0" "\<not> cycle_exhausted (counters st)" "\<not> shift_exhausted a (counters st)"
    "\<not> break_due a (counters st)"
  then have "0 < rem" "\<not> limit_reached a (counters st)"
    by (simp_all add: limit_reached_def)
  then show "((cfg, a, loc, rmk, rem - chunk a rem (counters st),
        advance a loc rmk (chunk a rem (counters st)) st), (cfg, a, loc, rmk, rem, st))
      \<in> measure (\<lambda>(cfg, a, loc, rmk, rem, st). nat \<lceil>work_bound a rem (counters st)\<rceil>)"
    using measure_step [OF advance_decreases] by simp
qed

declare run_activity.simps [simp del]

text \<open>
  Modelled from the spec: the kinds of waypoint, and the start of a run, where the cycle is
  seeded with \<open>70 - current_cycle_used\<close>, clamped at 0.
\<close>

datatype waypoint_kind = CurrentLocation | Pickup | Dropoff

definition initial_state :: "real \<Rightarrow> engine_state" where
  "initial_state cycle_used =
     \<lparr> now = 0,
       counters = \<lparr> driving_since_break_hours = 0, driving_this_shift_hours = 0,
                    onduty_window_elapsed_hours = 0,
                    cycle_hours_remaining = max 0 (70 - cycle_used) \<rparr>,
       timeline = [] \<rparr>"

text \<open>
  Modelled from the spec: on arrival at the end of a leg, a loading or unloading block is
  inserted when the waypoint is a drop-off, or a pickup that is not the last waypoint of
  the trip.
\<close>

definition stops_at :: "(string \<Rightarrow> waypoint_kind option) \<Rightarrow> bool \<Rightarrow> leg \<Rightarrow> bool" where
  "stops_at kind_of final l =
     (case kind_of (to_label l) of
        Some Dropoff \<Rightarrow> True
      | Some Pickup \<Rightarrow> \<not> final
      | _ \<Rightarrow> False)"

definition arrive ::
  "engine_config \<Rightarrow> (string \<Rightarrow> waypoint_kind option) \<Rightarrow> bool \<Rightarrow> leg \<Rightarrow> engine_state \<Rightarrow> engine_state" where
  "arrive cfg kind_of final l st =
     (if stops_at kind_of final l
      then run_activity cfg OnDutyBlock (to_label l) ''loading/unloading'' (dwell_hours cfg) st
      else st)"

text \<open>Modelled from the spec: the legs are driven in order, each followed by its arrival.\<close>

fun drive_legs ::
  "engine_config \<Rightarrow> (string \<Rightarrow> waypoint_kind option) \<Rightarrow> leg list \<Rightarrow> engine_state \<Rightarrow> engine_state" where
  "drive_legs cfg kind_of [] st = st"
| "drive_legs cfg kind_of (l # ls) st =
     drive_legs cfg kind_of ls
       (arrive cfg kind_of (ls = []) l
          (run_activity cfg DriveLeg (from_label l) [] (duration_hours l) st))"

text \<open>
  Modelled from the spec: the whole simulation. The clock starts in status OffDuty, the
  pre-trip inspection is an on-duty block at the current location before any driving, then
  the legs are driven; nothing is added after the last event.
\<close>

definition current_location_label :: "leg list \<Rightarrow> string" where
  "current_location_label legs = (case legs of [] \<Rightarrow> [] | l # _ \<Rightarrow> from_label l)"

definition wait_for_start :: "engine_config \<Rightarrow> string \<Rightarrow> engine_state \<Rightarrow> engine_state" where
  "wait_for_start cfg loc st =
     (if 0 < trip_start_hours cfg then emit OffDuty loc [] (trip_start_hours cfg) st else st)"

definition simulate ::
  "engine_config \<Rightarrow> (string \<Rightarrow> waypoint_kind option) \<Rightarrow> leg list \<Rightarrow> real \<Rightarrow> timeline_event list" where
  "simulate cfg kind_of legs cycle_used =
     timeline
       (drive_legs cfg kind_of legs
          (run_activity cfg OnDutyBlock (current_location_label legs) ''pre-trip inspection''
             (pretrip_hours cfg)
             (wait_for_start cfg (current_location_label legs)
                (initial_state cycle_used))))"

section \<open>The day splitter\<close>

text \<open>
  Modelled from the spec: DutyEvent, the event of a day; the same with its duration, as the
  totals need it after the split; and DaySchedule, whose offset is its 1-based index less
  one. (The field names carry a prefix where the front end has a field of the same name.)
\<close>

record duty_event =
  time_of_day_hours :: real
  ev_status :: duty_status
  ev_location :: string
  ev_remark :: string

record day_piece = duty_event +
  piece_hours :: real

record engine_day =
  day_index :: nat
  day_offset :: nat
  day_events :: "duty_event list"
  day_totals :: "duty_status \<Rightarrow> real"

text \<open>
  Modelled from the spec: the part of an event that falls into day \<open>k\<close>, from hour
  \<open>24 k\<close> to hour \<open>24 k + 24\<close>, with the status, location and remark of the event; an
  event that crosses a boundary has one part in each day it touches, the later one
  starting at 0.0 of its day.
\<close>

definition clip_to_day :: "nat \<Rightarrow> timeline_event \<Rightarrow> day_piece option" where
  "clip_to_day k e =
     (let lo = max (start_hours e) (24 * real k);
          hi = min (start_hours e + length_hours e) (24 * real k + 24)
      in if lo < hi
         then Some \<lparr> time_of_day_hours = lo - 24 * real k, ev_status = tl_status e,
                     ev_location = tl_location e, ev_remark = tl_remark e,
                     piece_hours = hi - lo \<rparr>
         else None)"

definition day_pieces :: "nat \<Rightarrow> timeline_event list \<Rightarrow> day_piece list" where
  "day_pieces k es = List.map_filter (clip_to_day k) es"

text \<open>
  Modelled from the spec: the totals of a day are the durations of its events after the
  split, summed by status. The final day is padded with OffDuty to reach 24.0 only if the
  trip's total timeline is shorter than a full day; \<open>pad\<close> says that it is to be padded.
\<close>

definition hours_in :: "duty_status \<Rightarrow> day_piece list \<Rightarrow> real" where
  "hours_in s ps = sum_list (map piece_hours (filter (\<lambda>p. ev_status p = s) ps))"

definition covered_hours :: "day_piece list \<Rightarrow> real" where
  "covered_hours ps = sum_list (map piece_hours ps)"

definition totals_of :: "bool \<Rightarrow> day_piece list \<Rightarrow> duty_status \<Rightarrow> real" where
  "totals_of pad ps s =
     hours_in s ps + (if pad \<and> s = OffDuty then 24 - covered_hours ps else 0)"

text \<open>
  Modelled from the spec: the days are the 24-hour periods the timeline reaches into, in
  order, from day 1.
\<close>

definition timeline_end :: "timeline_event list \<Rightarrow> real" where
  "timeline_end es = (case es of [] \<Rightarrow> 0 | _ \<Rightarrow> start_hours (last es) + length_hours (last es))"

definition day_count :: "timeline_event list \<Rightarrow> nat" where
  "day_count es = nat \<lceil>timeline_end es / 24\<rceil>"

definition make_day :: "timeline_event list \<Rightarrow> nat \<Rightarrow> engine_day" where
  "make_day es k =
     \<lparr> day_index = k + 1, day_offset = k,
       day_events = map (\<lambda>p. duty_event.truncate p) (day_pieces k es),
       day_totals = totals_of (k + 1 = day_count es \<and> timeline_end es < 24) (day_pieces k es) \<rparr>"

definition split_days :: "timeline_event list \<Rightarrow> engine_day list" where
  "split_days es = map (make_day es) [0..<day_count es]"

definition plan_schedule ::
  "engine_config \<Rightarrow> (string \<Rightarrow> waypoint_kind option) \<Rightarrow> leg list \<Rightarrow> real \<Rightarrow> engine_day list" where
  "plan_schedule cfg kind_of legs cycle_used =
     split_days (simulate cfg kind_of legs cycle_used)"



section \<open>Sample trips\<close>

text \<open>A configuration with the start of the README's example day, and its waypoints.\<close>

definition default_config :: engine_config where
  "default_config =
     \<lparr> trip_start_hours = 6, pretrip_hours = 1, dwell_hours = 1, rest_in_sleeper = False \<rparr>"

definition sample_kinds :: "string \<Rightarrow> waypoint_kind option" where
  "sample_kinds = [''Chicago, IL'' \<mapsto> CurrentLocation, ''Milwaukee, WI'' \<mapsto> Pickup,
                   ''Minneapolis, MN'' \<mapsto> Dropoff]"

section \<open>Properties stated of a timeline\<close>












definition tev :: "real \<Rightarrow> real \<Rightarrow> duty_status \<Rightarrow> string \<Rightarrow> string \<Rightarrow> timeline_event" where
  "tev s d k loc rmk =
     \<lparr> start_hours = s, length_hours = d, tl_status = k, tl_location = loc, tl_remark = rmk \<rparr>"



text \<open>The leg of scenarios 1 and 4 of the specification: two hours of driving.\<close>

definition two_hour_leg :: "leg list" where
  "two_hour_leg =
     [\<lparr> from_label = ''Chicago, IL'', to_label = ''Minneapolis, MN'',
        duration_hours = 2, distance_miles = 100 \<rparr>]"

section \<open>Properties of the front end\<close>

subsection \<open>formatHours\<close>

lemma formatHours_mins_range: "0 \<le> formatHours_mins h \<and> formatHours_mins h \<le> 60"
proof -
  let ?f = "h - of_int \<lfloor>h\<rfloor>"
  have f: "0 \<le> ?f" "?f < 1" by linarith+
  have lo: "(0::real) \<le> ?f * 60 + 1 / 2" using f by simp
  have hi: "?f * 60 + 1 / 2 < 61" using f by simp
  have "0 \<le> \<lfloor>?f * 60 + 1 / 2\<rfloor>" using lo by simp
  moreover have "\<lfloor>?f * 60 + 1 / 2\<rfloor> \<le> 60" using hi by (simp add: floor_le_iff)
  ultimately show ?thesis by (simp add: formatHours_mins_def formatHours_hrs_def round_def)
qed

lemma formatHours_mins_60:
  assumes "59.5 / 60 < h - of_int \<lfloor>h\<rfloor>"
  shows "formatHours_mins h = 60"
proof -
  let ?f = "h - of_int \<lfloor>h\<rfloor>"
  have "(60::real) \<le> ?f * 60 + 1 / 2" using assms by simp
  then have "60 \<le> \<lfloor>?f * 60 + 1 / 2\<rfloor>" by (simp add: le_floor_iff)
  then have "60 \<le> formatHours_mins h"
    by (simp add: formatHours_mins_def formatHours_hrs_def round_def)
  with formatHours_mins_range [of h] show ?thesis by simp
qed

text \<open>
  C10. For every non-negative \<open>h\<close>, \<open>formatHours h\<close> is the decimal numeral of
  \<open>floor h\<close>, then the letter h and a blank, then the minutes
  \<open>round ((h - floor h) * 60)\<close> padded to two digits, then the letter m. The minutes lie
  between 0 and 60, both included; they are exactly 60 whenever the fractional part of
  \<open>h\<close> exceeds \<open>59.5 / 60\<close>, and the hours are still \<open>floor h\<close> then (no carry):
  \<open>formatHours 1.999\<close> is \<open>1h 60m\<close>.
\<close>

theorem formatHours_minutes:
  assumes "0 \<le> h"
  shows "formatHours h =
           nat_toString (nat \<lfloor>h\<rfloor>) @ ''h '' @
           padStart 2 (CHR ''0'') (nat_toString (nat (round ((h - of_int \<lfloor>h\<rfloor>) * 60)))) @ ''m''
         \<and> formatHours_hrs h = \<lfloor>h\<rfloor>
         \<and> formatHours_mins h = round ((h - of_int \<lfloor>h\<rfloor>) * 60)
         \<and> 0 \<le> formatHours_mins h \<and> formatHours_mins h \<le> 60
         \<and> (59.5 / 60 < h - of_int \<lfloor>h\<rfloor> \<longrightarrow>
               formatHours_mins h = 60 \<and> formatHours_hrs h = \<lfloor>h\<rfloor>)
         \<and> formatHours_mins 1.999 = 60
         \<and> formatHours 1.999 = ''1h 60m''"
proof -
  have hrs: "0 \<le> formatHours_hrs h" using assms by (simp add: formatHours_hrs_def)
  have mins: "0 \<le> formatHours_mins h" using formatHours_mins_range [of h] by simp
  have str: "formatHours h =
           nat_toString (nat \<lfloor>h\<rfloor>) @ ''h '' @
           padStart 2 (CHR ''0'') (nat_toString (nat (round ((h - of_int \<lfloor>h\<rfloor>) * 60)))) @ ''m''"
    using hrs mins
    by (simp add: formatHours_def toString_def formatHours_hrs_def formatHours_mins_def)
  have ex1: "formatHours_mins 1.999 = 60"
    by (simp add: formatHours_mins_def formatHours_hrs_def round_def)
  have ex2: "formatHours 1.999 = ''1h 60m''"
    by (simp add: formatHours_def formatHours_mins_def formatHours_hrs_def round_def
        toString_def padStart_def nat_toString.simps digit_char_def)
  show ?thesis
    using str formatHours_mins_range [of h] formatHours_mins_60 [of h] ex1 ex2
    by (simp add: formatHours_hrs_def formatHours_mins_def)
qed

theorem formatHours_minutes_witness:
  "(0::real) \<le> 2.9975 \<and> (59.5::real) / 60 < 2.9975 - of_int \<lfloor>2.9975::real\<rfloor>
   \<and> formatHours_mins 2.9975 = 60 \<and> formatHours_hrs 2.9975 = 2
   \<and> formatHours 2.9975 = ''2h 60m''"
  using formatHours_minutes [of "2.9975"]
  by (simp add: padStart_def nat_toString.simps digit_char_def round_def)

subsection \<open>The event table\<close>

lemma endTime_eq:
  "endTime evs i = (if i + 1 < length evs then time (evs ! (i + 1)) else 24)"
  by (simp add: endTime_def index_def)

lemma remark_cell_falsy:
  "remark (evs ! i) = None \<or> remark (evs ! i) = Some '''' \<Longrightarrow>
   remark_cell (render_event evs i) = ''('' @ formatHours (duration evs i) @ '')''"
  by (auto simp add: render_event_def Let_def)

lemma table_row:
  "i < length (events d) \<Longrightarrow>
   map_option (\<lambda>rows. rows ! i) (table (DaySchedule d True)) = Some (render_event (events d) i)"
  by (simp add: DaySchedule_def)

text \<open>
  C6. For the event at index \<open>i\<close> of a day's event table, the end time is the time of
  the event at index \<open>i + 1\<close>, or 24 when the event is the last of the day; the duration
  is that end time minus the event's own time; the expanded table holds the row of the
  event at position \<open>i\<close>, and the row shows the duration (through \<open>formatHours\<close>, between
  brackets) in its remark cell when the event's remark is missing or empty.
\<close>

theorem event_table_durations:
  assumes "i < length (events d)"
  shows "endTime (events d) i =
           (if i + 1 < length (events d) then time (events d ! (i + 1)) else 24)
         \<and> duration (events d) i = endTime (events d) i - time (events d ! i)
         \<and> map_option (\<lambda>rows. rows ! i) (table (DaySchedule d True))
             = Some (render_event (events d) i)
         \<and> (remark (events d ! i) = None \<or> remark (events d ! i) = Some '''' \<longrightarrow>
              remark_cell (render_event (events d) i)
                = ''('' @ formatHours (endTime (events d) i - time (events d ! i)) @ '')'')"
  using assms endTime_eq [of "events d" i] table_row [of i d] remark_cell_falsy [of "events d" i]
  by (simp add: duration_def)

theorem event_table_durations_witness:
  "(2::nat) < length (events sample_day)
   \<and> remark (events sample_day ! 2) = None
   \<and> endTime (events sample_day) 2 = 24
   \<and> duration (events sample_day) 2 = 17.5
   \<and> remark_cell (render_event (events sample_day) 2) = ''(17h 30m)''"
proof -
  have a: "(2::nat) < length (events sample_day)"
    by (simp add: sample_day_def sample_events_def)
  have b: "remark (events sample_day ! 2) = None"
    by (simp add: sample_day_def sample_events_def)
  have c: "time (events sample_day ! 2) = 6.5"
    by (simp add: sample_day_def sample_events_def)
  have d: "\<not> (2::nat) + 1 < length (events sample_day)"
    by (simp add: sample_day_def sample_events_def)
  have e: "formatHours (24 - 6.5) = ''17h 30m''"
    by (simp add: formatHours_def formatHours_hrs_def formatHours_mins_def round_def
        toString_def padStart_def nat_toString.simps digit_char_def)
  show ?thesis
    using event_table_durations [OF a] a b c d e by simp
qed

subsection \<open>The daily totals\<close>






subsection \<open>The viewer without logs\<close>

text \<open>
  C9. When the logs prop is \<open>null\<close>, \<open>undefined\<close> or the empty array, the viewer returns
  \<open>null\<close>, whatever the schedule prop and the active day are, and does not throw. On a
  non-empty array, with the initial state \<open>activeDay = 0\<close>, it renders, and the log it
  displays is the first one.
\<close>

theorem ELDLogViewer_no_logs:
  "ELDLogViewer Null schedule a = RendersNull
   \<and> ELDLogViewer Undefined schedule a = RendersNull
   \<and> ELDLogViewer (Array []) schedule a = RendersNull
   \<and> (\<exists>v. ELDLogViewer (Array (l # ls)) schedule initial_activeDay = Renders v
          \<and> currentLog v = l
          \<and> image_src v = ''data:image/png;base64,'' @ image_base64 l
          \<and> image_alt v = ''ELD Log Day '' @ toString (day l))"
  by (simp add: ELDLogViewer_def initial_activeDay_def index_def Let_def)

theorem ELDLogViewer_no_logs_witness:
  "ELDLogViewer Null (Array [sample_day]) 0 = RendersNull
   \<and> ELDLogViewer (Array []) (Array [sample_day]) 0 = RendersNull
   \<and> (\<exists>v. ELDLogViewer (Array [sample_log]) (Array [sample_day]) initial_activeDay = Renders v
          \<and> currentLog v = sample_log
          \<and> image_src v = ''data:image/png;base64,iVBOR'')"
  using ELDLogViewer_no_logs [of "Array [sample_day]" 0 sample_log "[]"]
  by (auto simp add: sample_log_def)

subsection \<open>The trip form\<close>

lemma sample_formData_eq:
  "sample_formData cycle =
     \<lparr> current_location = ''Chicago, IL'', pickup_location = ''Milwaukee, WI'',
       dropoff_location = ''Minneapolis, MN'', current_cycle_used = cycle \<rparr>"
  by (simp add: sample_formData_def handleChange_def initial_formData_def)

lemma or_zero_in_range:
  "n = Num x \<Longrightarrow> 0 \<le> x \<Longrightarrow> x \<le> 70 \<Longrightarrow> \<exists>y. or_zero n = Num y \<and> 0 \<le> y \<and> y \<le> 70"
  by (simp add: or_zero_def)

lemma number_input_valid_cycle:
  assumes "number_input_valid parseFloat cycle_input v"
  shows "\<exists>x. parseFloat v = Num x \<and> 0 \<le> x \<and> x \<le> 70"
proof (cases "parseFloat v")
  case (Num x)
  with assms show ?thesis
    by (simp add: number_input_valid_def cycle_input_def split: if_splits)
qed (use assms in \<open>simp_all add: number_input_valid_def cycle_input_def split: if_splits\<close>)

text \<open>
  C1. Whenever pressing the submit button lets a request through, the request is the one
  \<open>handleSubmit\<close> builds and its \<open>current_cycle_used\<close> is a number between 0 and 70,
  both included; and when the entered value does not denote a number in that range, the
  submission is blocked and no request is made. The handler itself has no check of the
  range: the bound is the one the \<open>min\<close> and \<open>max\<close> attributes of the input declare.
\<close>

theorem submitted_cycle_in_range:
  "(TripForm_submit parseFloat formData = Some req \<longrightarrow>
      req = handleSubmit parseFloat formData
      \<and> (\<exists>x. current_cycle_used req = Num x \<and> 0 \<le> x \<and> x \<le> 70))
   \<and> (\<not> (\<exists>x. parseFloat (current_cycle_used formData) = Num x \<and> 0 \<le> x \<and> x \<le> 70) \<longrightarrow>
        TripForm_submit parseFloat formData = None)"
proof (intro conjI impI)
  assume s: "TripForm_submit parseFloat formData = Some req"
  then show "req = handleSubmit parseFloat formData"
    by (simp add: TripForm_submit_def split: if_splits)
  from s have "number_input_valid parseFloat cycle_input (current_cycle_used formData)"
    by (simp add: TripForm_submit_def split: if_splits)
  from number_input_valid_cycle [OF this] obtain x where
    x: "parseFloat (current_cycle_used formData) = Num x" "0 \<le> x" "x \<le> 70" by blast
  from or_zero_in_range [OF x] \<open>req = handleSubmit parseFloat formData\<close>
  show "\<exists>x. current_cycle_used req = Num x \<and> 0 \<le> x \<and> x \<le> 70"
    by (simp add: handleSubmit_def)
next
  assume n: "\<not> (\<exists>x. parseFloat (current_cycle_used formData) = Num x \<and> 0 \<le> x \<and> x \<le> 70)"
  then have "\<not> number_input_valid parseFloat cycle_input (current_cycle_used formData)"
    using number_input_valid_cycle by blast
  then show "TripForm_submit parseFloat formData = None"
    by (simp add: TripForm_submit_def)
qed

theorem submitted_cycle_in_range_witness:
  "TripForm_submit sample_parseFloat (sample_formData ''20.5'')
     = Some (handleSubmit sample_parseFloat (sample_formData ''20.5''))
   \<and> current_cycle_used (handleSubmit sample_parseFloat (sample_formData ''20.5'')) = Num 20.5
   \<and> TripForm_submit sample_parseFloat (sample_formData ''100'') = None
   \<and> TripForm_submit sample_parseFloat (sample_formData ''-1'') = None
   \<and> TripForm_submit sample_parseFloat (sample_formData '''') = None"
proof -
  have a: "TripForm_submit sample_parseFloat (sample_formData ''20.5'')
     = Some (handleSubmit sample_parseFloat (sample_formData ''20.5''))"
    by (simp add: TripForm_submit_def sample_formData_eq sample_parseFloat_def
        text_input_valid_def number_input_valid_def cycle_input_def)
  have b: "current_cycle_used (handleSubmit sample_parseFloat (sample_formData ''20.5'')) = Num 20.5"
    by (simp add: handleSubmit_def sample_formData_eq sample_parseFloat_def or_zero_def)
  have c: "\<not> (\<exists>x. sample_parseFloat (current_cycle_used (sample_formData ''100'')) = Num x \<and> 0 \<le> x \<and> x \<le> 70)"
    by (simp add: sample_formData_eq sample_parseFloat_def)
  have d: "\<not> (\<exists>x. sample_parseFloat (current_cycle_used (sample_formData ''-1'')) = Num x \<and> 0 \<le> x \<and> x \<le> 70)"
    by (simp add: sample_formData_eq sample_parseFloat_def)
  have e: "\<not> (\<exists>x. sample_parseFloat (current_cycle_used (sample_formData '''')) = Num x \<and> 0 \<le> x \<and> x \<le> 70)"
    by (simp add: sample_formData_eq sample_parseFloat_def)
  show ?thesis
    using a b c d e
      submitted_cycle_in_range [of sample_parseFloat "sample_formData ''100''"]
      submitted_cycle_in_range [of sample_parseFloat "sample_formData ''-1''"]
      submitted_cycle_in_range [of sample_parseFloat "sample_formData ''''"]
    by blast
qed

subsection \<open>The state of the application\<close>

lemma msg_truthy: "truthy (msg err)"
  by (simp add: msg_def)

lemma msg_not_null: "msg err \<noteq> JNull"
  using msg_truthy [of err] by (cases "msg err") simp_all

text \<open>A response whose body is \<open>null\<close> leaves both pieces of state \<open>null\<close>.\<close>

theorem null_response_leaves_both_null:
  "error (App_handleSubmit (Resolved None) stale_state) = JNull
   \<and> result (App_handleSubmit (Resolved None) stale_state) = None
   \<and> \<not> ((error (App_handleSubmit (Resolved None) stale_state) \<noteq> JNull)
          \<noteq> (result (App_handleSubmit (Resolved None) stale_state) \<noteq> None))"
  by (simp add: App_handleSubmit_def App_handleSubmit_settled_def App_handleSubmit_start_def)

text \<open>
  C2, amended. After \<open>App\<close>'s \<open>handleSubmit\<close> has run to completion, from whatever state
  it started, \<open>error\<close> and \<open>result\<close> are never both not \<open>null\<close>, and exactly one of them
  is not \<open>null\<close> unless \<open>planTrip\<close> resolved with \<open>null\<close>. When \<open>planTrip\<close> resolved with
  \<open>d\<close>, \<open>result\<close> is \<open>d\<close> as it came and \<open>error\<close> is \<open>null\<close>; when it rejected, \<open>result\<close>
  is \<open>null\<close> and \<open>error\<close> is the message, which is truthy and so is displayed.
  \<open>loading\<close> is false again.
\<close>

theorem handleSubmit_error_xor_result:
  "\<not> (error (App_handleSubmit out st) \<noteq> JNull \<and> result (App_handleSubmit out st) \<noteq> None)
   \<and> (out \<noteq> Resolved None \<longrightarrow>
         ((error (App_handleSubmit out st) \<noteq> JNull)
            \<noteq> (result (App_handleSubmit out st) \<noteq> None)))
   \<and> (out = Resolved d \<longrightarrow>
         result (App_handleSubmit out st) = d \<and> error (App_handleSubmit out st) = JNull)
   \<and> (out = Rejected err \<longrightarrow>
         result (App_handleSubmit out st) = None
         \<and> error (App_handleSubmit out st) = msg err
         \<and> truthy (error (App_handleSubmit out st)))
   \<and> loading (App_handleSubmit out st) = False"
proof (cases out)
  case (Resolved r)
  then show ?thesis
    by (auto simp add: App_handleSubmit_def App_handleSubmit_settled_def
        App_handleSubmit_start_def)
next
  case (Rejected e)
  then show ?thesis
    using msg_not_null [of e] msg_truthy [of e]
    by (auto simp add: App_handleSubmit_def App_handleSubmit_settled_def App_handleSubmit_start_def)
qed

theorem handleSubmit_error_xor_result_witness:
  "result (App_handleSubmit (Resolved (Some ''full response'')) stale_state)
     = Some ''full response''
   \<and> error (App_handleSubmit (Resolved (Some ''full response'')) stale_state) = JNull
   \<and> result (App_handleSubmit (Rejected (Some sample_thrown)) stale_state) = None
   \<and> error (App_handleSubmit (Rejected (Some sample_thrown)) stale_state)
       = JString ''Request failed with status code 400''
   \<and> error (App_handleSubmit (Rejected None) stale_state)
       = JString ''An unexpected error occurred. Please try again.''
   \<and> result (App_handleSubmit (Resolved (Some ''full response'')) initial_app_state)
       = Some ''full response''
   \<and> error (App_handleSubmit (Resolved (Some ''full response'')) initial_app_state) = JNull
   \<and> Resolved (Some ''full response'') \<noteq> (Resolved None :: string outcome)"
  using handleSubmit_error_xor_result
      [of "Resolved (Some ''full response'')" stale_state "Some ''full response''"]
    handleSubmit_error_xor_result [of "Rejected (Some sample_thrown)" stale_state _ "Some sample_thrown"]
    handleSubmit_error_xor_result [of "Rejected None" stale_state _ None]
    handleSubmit_error_xor_result
      [of "Resolved (Some ''full response'')" initial_app_state "Some ''full response''"]
  by (simp add: msg_def response_data_error_def err_message_def sample_thrown_def)

subsection \<open>The list of legs\<close>

lemma render_leg_reads:
  assumes "leg ''from_location'' = leg' ''from_location''"
    and "leg ''to_location'' = leg' ''to_location''"
    and "leg ''distance_meters'' = leg' ''distance_meters''"
    and "leg ''duration_seconds'' = leg' ''duration_seconds''"
  shows "render_leg s2n leg = render_leg s2n leg'"
  using assms by (simp add: render_leg_def)

text \<open>
  A leg with the four fields the claim names, and no other, is displayed without its end
  points and with \<open>NaN\<close> for both numbers: the component does not read those fields.
\<close>

theorem spec_leg_not_rendered:
  "render_leg sample_parseFloat spec_leg
     = \<lparr> leg_from = JUndefined, leg_to = JUndefined, leg_miles = ''NaN'', leg_hours = ''NaN'' \<rparr>"
  by (simp add: render_leg_def spec_leg_def object_of_def toFixed_def)

text \<open>
  C8, amended. Every leg of the route is displayed, in order, and is read through the
  fields \<open>from_location\<close>, \<open>to_location\<close>, \<open>distance_meters\<close> and \<open>duration_seconds\<close>:
  the distance arrives in metres and is shown in miles (divided by 1609.34, no decimals),
  the duration arrives in seconds and is shown in hours (divided by 3600, one decimal),
  and no other field of the leg changes what is displayed.
\<close>

theorem render_leg_wire_fields:
  assumes "leg ''from_location'' = JString a" and "leg ''to_location'' = JString b"
    and "leg ''distance_meters'' = JNumber (Num m)" and "leg ''duration_seconds'' = JNumber (Num s)"
  shows "render_leg s2n leg
           = \<lparr> leg_from = JString a, leg_to = JString b,
               leg_miles = toFixed 0 (Num (m / 1609.34)),
               leg_hours = toFixed 1 (Num (s / 3600)) \<rparr>
         \<and> (\<forall>k v. k \<notin> {''from_location'', ''to_location'', ''distance_meters'', ''duration_seconds''}
               \<longrightarrow> render_leg s2n (leg (k := v)) = render_leg s2n leg)
         \<and> render_legs s2n (Some route_legs) = Some (map (render_leg s2n) route_legs)"
proof (intro conjI allI impI)
  show "render_legs s2n (Some route_legs) = Some (map (render_leg s2n) route_legs)"
    by (simp add: render_legs_def)
next
  show "render_leg s2n leg
           = \<lparr> leg_from = JString a, leg_to = JString b,
               leg_miles = toFixed 0 (Num (m / 1609.34)),
               leg_hours = toFixed 1 (Num (s / 3600)) \<rparr>"
    using assms by (simp add: render_leg_def)
next
  fix k v
  assume "k \<notin> {''from_location'', ''to_location'', ''distance_meters'', ''duration_seconds''}"
  then have ne: "k \<noteq> ''from_location''" "k \<noteq> ''to_location''"
    "k \<noteq> ''distance_meters''" "k \<noteq> ''duration_seconds''"
    by simp_all
  show "render_leg s2n (leg (k := v)) = render_leg s2n leg"
    by (rule render_leg_reads) (rule fun_upd_other, rule ne [THEN not_sym])+
qed

theorem render_leg_wire_fields_witness:
  "render_leg sample_parseFloat wire_leg
     = \<lparr> leg_from = JString ''Chicago, IL'', leg_to = JString ''Milwaukee, WI'',
         leg_miles = ''92'', leg_hours = ''1.5'' \<rparr>
   \<and> render_leg sample_parseFloat (wire_leg (''distance_miles'' := JNumber (Num 1)))
     = render_leg sample_parseFloat wire_leg
   \<and> render_legs sample_parseFloat (Some [wire_leg, wire_leg])
     = Some [render_leg sample_parseFloat wire_leg, render_leg sample_parseFloat wire_leg]"
proof -
  have a: "wire_leg ''from_location'' = JString ''Chicago, IL''"
    and b: "wire_leg ''to_location'' = JString ''Milwaukee, WI''"
    and c: "wire_leg ''distance_meters'' = JNumber (Num 148059.28)"
    and d: "wire_leg ''duration_seconds'' = JNumber (Num 5400)"
    by (simp_all add: wire_leg_def object_of_def)
  have e: "toFixed 0 (Num (148059.28 / 1609.34)) = ''92''"
    by (simp add: toFixed_def round_def nat_toString.simps digit_char_def)
  have f: "toFixed 1 (Num (5400 / 3600)) = ''1.5''"
    by (simp add: toFixed_def round_def nat_toString.simps digit_char_def padStart_def)
  from render_leg_wire_fields [OF a b c d, of sample_parseFloat "[wire_leg, wire_leg]"] e f
  show ?thesis by simp
qed

subsection \<open>The pixel mapping\<close>



section \<open>Properties of the engine and of the day splitter\<close>

subsection \<open>The timeline is contiguous\<close>










subsection \<open>The totals of a day\<close>









lemma day_index_make_day [simp]:
  "day_index (make_day es k) = Suc k" "day_offset (make_day es k) = k"
  by (simp_all add: make_day_def)












lemmas engine_defs =
  simulate_def drive_legs.simps arrive_def stops_at_def wait_for_start_def initial_state_def
  current_location_label_def run_activity.simps restart_def rest_def take_break_def advance_def
  emit_def chunk_def consume_def cycle_exhausted_def shift_exhausted_def break_due_def
  default_config_def sample_kinds_def







lemma two_hour_leg_end:
  "timeline_end (simulate default_config sample_kinds two_hour_leg 0) = 10"
  by (simp add: engine_defs two_hour_leg_def timeline_end_def)

lemma two_hour_leg_day_count:
  "day_count (simulate default_config sample_kinds two_hour_leg 0) = 1"
  unfolding day_count_def two_hour_leg_end by simp

lemma two_hour_leg_days:
  "plan_schedule default_config sample_kinds two_hour_leg 0
     = [make_day (simulate default_config sample_kinds two_hour_leg 0) 0]"
  by (simp add: plan_schedule_def split_days_def two_hour_leg_day_count)



subsection \<open>The break after 8 hours of driving\<close>




















subsection \<open>The end-to-end scenarios of the specification\<close>

text \<open>
  Scenario 1: a single leg of two hours with no hours used gives one day, with two hours of
  driving and nothing inserted but the pre-trip and the unloading block. (Scenario 2 is the
  witness of C4, scenario 3 the timeline of the twelve-hour leg above.)
\<close>

lemma scenario_1:
  "simulate default_config sample_kinds two_hour_leg 0 =
     [tev 0 6 OffDuty ''Chicago, IL'' [],
      tev 6 1 OnDutyNotDriving ''Chicago, IL'' ''pre-trip inspection'',
      tev 7 2 Driving ''Chicago, IL'' [],
      tev 9 1 OnDutyNotDriving ''Minneapolis, MN'' ''loading/unloading'']"
  by (simp add: engine_defs two_hour_leg_def tev_def)

lemma scenario_1_days:
  "map (\<lambda>d. map (day_totals d) [OffDuty, SleeperBerth, Driving, OnDutyNotDriving])
     (plan_schedule default_config sample_kinds two_hour_leg 0) = [[20, 0, 2, 2]]"
  by (simp add: two_hour_leg_days make_day_def two_hour_leg_day_count two_hour_leg_end)
    (simp add: scenario_1 tev_def totals_of_def day_pieces_def clip_to_day_def
      hours_in_def covered_hours_def map_filter_simps)

text \<open>
  Scenario 4: with 69.5 hours used, the restart of 34 hours comes after half an hour of
  further on-duty time, and the cycle is 70 again after it.
\<close>

lemma scenario_4:
  "simulate default_config sample_kinds two_hour_leg 69.5 =
     [tev 0 6 OffDuty ''Chicago, IL'' [],
      tev 6 (1 / 2) OnDutyNotDriving ''Chicago, IL'' ''pre-trip inspection'',
      tev (13 / 2) 34 OffDuty ''Chicago, IL'' [],
      tev (81 / 2) (1 / 2) OnDutyNotDriving ''Chicago, IL'' ''pre-trip inspection'',
      tev 41 2 Driving ''Chicago, IL'' [],
      tev 43 1 OnDutyNotDriving ''Minneapolis, MN'' ''loading/unloading'']"
  by (simp add: engine_defs two_hour_leg_def tev_def)

lemma restart_resets_cycle: "cycle_hours_remaining (counters (restart loc st)) = 70"
  by (simp add: restart_def)

end
